theory Spec2Isabelle
  imports Main "HOL-Library.Sublist"
begin

section \<open>Python values, exceptions and the outside world\<close>

text \<open>
  The module \<open>fsub_extractor/utils/utils.py\<close> locates external programs on PATH, builds
  argument lists and runs them. Its functions are embedded below, one definition per
  source function, with the same local names.

  Python is dynamically typed, and two places of the source depend on it: the search
  distance of \<open>extract_tck_mrtrix\<close> is a float placed in an argument list, and
  \<open>dilate_roi\<close> hands a string to \<open>run_command\<close> where a list is expected. Values that
  reach an argument list are therefore \<open>pyval\<close>s. A float is a dyadic rational
  \<open>m * 2 ^ e\<close>, kept as the pair \<open>PFloat m e\<close>; the source never computes with it.
\<close>

datatype pyval = PNone | PStr string | PFloat int int | PList "pyval list"

text \<open>
  Exceptions are values. \<open>SystemExit\<close> and \<open>Exception\<close> carry the message the source
  builds; \<open>NameError\<close> and \<open>KeyError\<close> carry the name that was looked up; the other
  three carry the interpreter's message.
\<close>

datatype error =
    SystemExit string
  | Exception string
  | NameError string
  | KeyError string
  | IndexError string
  | TypeError string
  | OSError string

text \<open>
  What the operating system answers when asked to run an argument vector: the process ran
  and exited with a return code, or it could not be started at all.
\<close>

datatype proc_result = Exited int | SpawnFailed string

text \<open>
  The world the module reads: the PATH variable (absent when unset), the three file-system
  tests the source calls (\<open>os.path.exists\<close>, \<open>os.access(_, os.X_OK)\<close>,
  \<open>os.path.isdir\<close>) and the behaviour of external programs. The file system is read
  only through these tests and is taken as fixed during one call.
\<close>

record world =
  environ_PATH :: "string option"
  fs_exists :: "string \<Rightarrow> bool"
  fs_access_x :: "string \<Rightarrow> bool"
  fs_isdir :: "string \<Rightarrow> bool"
  proc :: "string list \<Rightarrow> proc_result"

text \<open>
  The only effect the module has is starting processes. The state threaded through every
  function is the list of argument vectors of the processes started so far, oldest first.
\<close>

type_synonym trace = "string list list"

section \<open>String operations of the Python library\<close>

text \<open>\<open>s.split(c)\<close> for a one-character separator: never an empty list.\<close>

fun split_py :: "char \<Rightarrow> string \<Rightarrow> string list" where
  "split_py c [] = [[]]"
| "split_py c (x # xs) =
     (if x = c then [] # split_py c xs
      else (case split_py c xs of
              [] \<Rightarrow> [[x]]
            | y # ys \<Rightarrow> (x # y) # ys))"

text \<open>\<open>s.strip(c)\<close> for a one-character set: drops the character at both ends.\<close>

definition strip_py :: "char \<Rightarrow> string \<Rightarrow> string" where
  "strip_py c s = rev (dropWhile (\<lambda>x. x = c) (rev (dropWhile (\<lambda>x. x = c) s)))"

text \<open>\<open>s.removesuffix(t)\<close>.\<close>

definition removesuffix :: "string \<Rightarrow> string \<Rightarrow> string" where
  "removesuffix s t =
     (if t \<noteq> [] \<and> suffix t s then take (length s - length t) s else s)"

text \<open>The slice \<open>s[-k:]\<close>: the last \<open>k\<close> characters, or all of \<open>s\<close> when it is shorter.\<close>

definition last_n :: "nat \<Rightarrow> string \<Rightarrow> string" where
  "last_n k s = drop (length s - k) s"

text \<open>
  \<open>s.replace(old, new)\<close>: every non-overlapping occurrence, left to right. With an empty
  \<open>old\<close>, Python puts \<open>new\<close> before every character and at the end.
\<close>

function replace_scan :: "string \<Rightarrow> string \<Rightarrow> string \<Rightarrow> string" where
  "replace_scan old new [] = []"
| "replace_scan old new (c # cs) =
     (if old \<noteq> [] \<and> prefix old (c # cs)
      then new @ replace_scan old new (drop (length old) (c # cs))
      else c # replace_scan old new cs)"
  by pat_completeness auto
termination
  by (relation "measure (\<lambda>(old, new, s). length s)") (auto simp: neq_Nil_conv)

definition replace_py :: "string \<Rightarrow> string \<Rightarrow> string \<Rightarrow> string" where
  "replace_py s old new =
     (if old = [] then new @ concat (map (\<lambda>c. c # new) s)
      else replace_scan old new s)"

text \<open>\<open>xs[-1]\<close> on a list.\<close>

definition last_py :: "string list \<Rightarrow> error + string" where
  "last_py xs =
     (case xs of [] \<Rightarrow> Inl (IndexError ''list index out of range'')
      | _ # _ \<Rightarrow> Inr (last xs))"

text \<open>\<open>os.path.join(a, b)\<close> of \<open>posixpath\<close>.\<close>

definition op_join :: "string \<Rightarrow> string \<Rightarrow> string" where
  "op_join a b =
     (if prefix ''/'' b then b
      else if a = [] \<or> suffix ''/'' a then a @ b
      else a @ ''/'' @ b)"

section \<open>Running a process\<close>

text \<open>
  \<open>subprocess.run(args)\<close> without a shell. A string is the program alone; a list must
  be non-empty and hold strings only, since every element is encoded for \<open>exec\<close>.
  Nothing is started when the arguments are rejected or the program cannot be started.
\<close>

fun fsencode_all :: "pyval list \<Rightarrow> error + string list" where
  "fsencode_all [] = Inr []"
| "fsencode_all (PStr s # xs) =
     (case fsencode_all xs of Inl e \<Rightarrow> Inl e | Inr ys \<Rightarrow> Inr (s # ys))"
| "fsencode_all (_ # xs) =
     Inl (TypeError ''expected str, bytes or os.PathLike object'')"

fun popen_args :: "pyval \<Rightarrow> error + string list" where
  "popen_args (PStr s) = Inr [s]"
| "popen_args (PList []) = Inl (IndexError ''list index out of range'')"
| "popen_args (PList xs) = fsencode_all xs"
| "popen_args _ = Inl (TypeError ''object is not iterable'')"

definition subprocess_run :: "world \<Rightarrow> pyval \<Rightarrow> trace \<Rightarrow> (error + int) \<times> trace" where
  "subprocess_run w args st =
     (case popen_args args of
        Inl e \<Rightarrow> (Inl e, st)
      | Inr argv \<Rightarrow>
          (case proc w argv of
             SpawnFailed m \<Rightarrow> (Inl (OSError m), st)
           | Exited rc \<Rightarrow> (Inr rc, st @ [argv])))"

text \<open>\<open>x[0]\<close> on a list or a string.\<close>

fun index0 :: "pyval \<Rightarrow> error + pyval" where
  "index0 (PList []) = Inl (IndexError ''list index out of range'')"
| "index0 (PList (x # xs)) = Inr x"
| "index0 (PStr []) = Inl (IndexError ''string index out of range'')"
| "index0 (PStr (c # cs)) = Inr (PStr [c])"
| "index0 _ = Inl (TypeError ''object is not subscriptable'')"

section \<open>The module\<close>

subsection \<open>find_program\<close>

definition is_exe :: "world \<Rightarrow> string \<Rightarrow> bool" where
  "is_exe w fpath = (fs_exists w fpath \<and> fs_access_x w fpath)"

text \<open>
  The \<open>for\<close> loop over the PATH entries. Both branches of its body leave the function,
  so the loop never reaches a second entry: there is no recursive call. In the \<open>else\<close>
  branch the message is built from \<open>function_name\<close>, a name bound neither in
  \<open>find_program\<close> nor in the module, so evaluating it raises NameError before
  \<open>SystemExit\<close> is constructed. A loop over no entries would fall through and return
  None.
\<close>

fun find_program_loop :: "world \<Rightarrow> string \<Rightarrow> string list \<Rightarrow> error + pyval" where
  "find_program_loop w program [] = Inr PNone"
| "find_program_loop w program (path # rest) =
     (let path' = strip_py (CHR 0x22) path;
          exe_file = op_join path' program
      in if is_exe w exe_file then Inr (PStr program)
         else Inl (NameError ''function_name''))"

definition find_program :: "world \<Rightarrow> string \<Rightarrow> error + pyval" where
  "find_program w program =
     (case environ_PATH w of
        None \<Rightarrow> Inl (KeyError ''PATH'')
      | Some v \<Rightarrow>
          (let path_split = split_py (CHR '':'') v
           in if length path_split = 0
              then Inl (SystemExit ''PATH environment variable is empty.'')
              else find_program_loop w program path_split))"

subsection \<open>run_command\<close>

definition run_command :: "world \<Rightarrow> pyval \<Rightarrow> trace \<Rightarrow> (error + pyval) \<times> trace" where
  "run_command w cmd_list st =
     (case index0 cmd_list of
        Inl e \<Rightarrow> (Inl e, st)
      | Inr function_name \<Rightarrow>
          (case subprocess_run w cmd_list st of
             (Inl e, st') \<Rightarrow> (Inl e, st')
           | (Inr return_code, st') \<Rightarrow>
               if return_code \<noteq> 0
               then (case function_name of
                       PStr n \<Rightarrow>
                         (Inl (SystemExit (''Command '' @ n @
                            '' exited with errors. See message above for more information.'')), st')
                     | _ \<Rightarrow> (Inl (TypeError ''can only concatenate str to str''), st'))
               else (Inr PNone, st')))"

subsection \<open>merge_rois\<close>

text \<open>
  The list \<open>cmd_mrcalc_merge\<close> ends with \<open>out_file\<close>, a name bound nowhere: building
  the list raises NameError after the four elements before it were evaluated, so the
  second \<open>run_command\<close> and the \<open>return\<close> are never reached. The parameter
  \<open>outpath_base\<close> is not read.
\<close>

definition merge_rois ::
  "world \<Rightarrow> string \<Rightarrow> string \<Rightarrow> string \<Rightarrow> trace \<Rightarrow> (error + pyval) \<times> trace" where
  "merge_rois w roi1 roi2 outpath_base st =
     (let labelled_roi2 = removesuffix roi2 ''.nii.gz'' @ ''_labelled.nii.gz''
      in case find_program w ''mrcalc'' of
           Inl e \<Rightarrow> (Inl e, st)
         | Inr mrcalc \<Rightarrow>
             (let cmd_mrcalc_mult =
                    PList [mrcalc, PStr roi2, PStr ''2'', PStr ''-mult'', PStr labelled_roi2]
              in case run_command w cmd_mrcalc_mult st of
                   (Inl e, st1) \<Rightarrow> (Inl e, st1)
                 | (Inr _, st1) \<Rightarrow> (Inl (NameError ''out_file''), st1)))"

subsection \<open>anat_to_gmwmi\<close>

text \<open>The \<open>if\<close>/\<open>elif\<close>/\<open>else\<close> that binds \<open>fivett_algo\<close>; the directory test comes first.\<close>

definition fivett_algo :: "world \<Rightarrow> string \<Rightarrow> error + string" where
  "fivett_algo w anat =
     (if fs_isdir w (op_join anat ''surf'') then Inr ''hsvs''
      else if last_n 7 anat = ''.nii.gz'' \<or> last_n 4 anat = ''.nii'' \<or> last_n 4 anat = ''.mif''
      then Inr ''fsl''
      else Inl (Exception ''Neither T1 or FreeSurfer input detected; Unable to create GMWMI''))"

definition anat_to_gmwmi ::
  "world \<Rightarrow> string \<Rightarrow> string \<Rightarrow> trace \<Rightarrow> (error + pyval) \<times> trace" where
  "anat_to_gmwmi w anat outpath_base st =
     (case fivett_algo w anat of
        Inl e \<Rightarrow> (Inl e, st)
      | Inr algo \<Rightarrow>
          (case find_program w ''5ttgen'' of
             Inl e \<Rightarrow> (Inl e, st)
           | Inr fivettgen \<Rightarrow>
               (let cmd_5ttgen =
                      PList [fivettgen, PStr algo, PStr anat,
                             PStr (outpath_base @ ''5tt.nii.gz''), PStr ''-nocrop'']
                in case run_command w cmd_5ttgen st of
                     (Inl e, st1) \<Rightarrow> (Inl e, st1)
                   | (Inr _, st1) \<Rightarrow>
                       (case find_program w ''5tt2gmwmi'' of
                          Inl e \<Rightarrow> (Inl e, st1)
                        | Inr fivett2gmwmi \<Rightarrow>
                            (let cmd_5tt2gmwmi =
                                   PList [fivett2gmwmi, PStr (outpath_base @ ''5tt.nii.gz''),
                                          PStr (outpath_base @ ''gmwmi.nii.gz'')]
                             in case run_command w cmd_5tt2gmwmi st1 of
                                  (Inl e, st2) \<Rightarrow> (Inl e, st2)
                                | (Inr _, st2) \<Rightarrow> (Inr PNone, st2))))))"

subsection \<open>extract_tck_mrtrix\<close>

text \<open>
  \<open>search_dist\<close> goes into the argument list as it is received, so it is a \<open>pyval\<close>;
  the paths are concatenated with string literals and are strings.
\<close>

definition extract_tck_mrtrix ::
  "world \<Rightarrow> string \<Rightarrow> string \<Rightarrow> string \<Rightarrow> pyval \<Rightarrow> bool \<Rightarrow> trace \<Rightarrow> (error + pyval) \<times> trace" where
  "extract_tck_mrtrix w tck_file rois_in outpath_base search_dist two_rois st =
     (case find_program w ''tck2connectome'' of
        Inl e \<Rightarrow> (Inl e, st)
      | Inr tck2connectome \<Rightarrow>
          (let tck2connectome_cmd =
                 PList [tck2connectome, PStr tck_file, PStr rois_in,
                        PStr (outpath_base @ ''connectome.txt''),
                        PStr ''-assignment_forward_search'', search_dist,
                        PStr ''-out_assignments'', PStr (outpath_base @ ''assignments.txt''),
                        PStr ''-force'']
           in case run_command w tck2connectome_cmd st of
                (Inl e, st1) \<Rightarrow> (Inl e, st1)
              | (Inr _, st1) \<Rightarrow>
                  (case find_program w ''connectome2tck'' of
                     Inl e \<Rightarrow> (Inl e, st1)
                   | Inr connectome2tck \<Rightarrow>
                       (let nodes = (if two_rois then ''1,2'' else ''0,1'');
                            connectome2tck_cmd =
                              PList [connectome2tck, PStr tck_file,
                                     PStr (outpath_base @ ''assignments.txt''),
                                     PStr (outpath_base @ ''extracted''),
                                     PStr ''-nodes'', PStr nodes, PStr ''-exclusive'',
                                     PStr ''-files'', PStr ''single'']
                        in case run_command w connectome2tck_cmd st1 of
                             (Inl e, st2) \<Rightarrow> (Inl e, st2)
                           | (Inr _, st2) \<Rightarrow> (Inr PNone, st2)))))"

subsection \<open>dilate_roi\<close>

text \<open>
  The \<open>if\<close>/\<open>else\<close> that binds \<open>roi_surf\<close>: a volumetric ROI is projected to the
  surface by \<open>mri_vol2surf\<close>, a surface ROI is taken as it is.
\<close>

definition dilate_roi_surf ::
  "world \<Rightarrow> string \<Rightarrow> string \<Rightarrow> string \<Rightarrow> string \<Rightarrow> trace \<Rightarrow> (error + string) \<times> trace" where
  "dilate_roi_surf w roi_in roi_file_extension subject hemi st =
     (if roi_file_extension \<noteq> ''label'' \<and> roi_file_extension \<noteq> ''mgz''
      then (let roi_surf = replace_py roi_in roi_file_extension ''.mgz''
            in case find_program w ''mri_vol2surf'' of
                 Inl e \<Rightarrow> (Inl e, st)
               | Inr mri_vol2surf \<Rightarrow>
                   (let mri_vol2surf_cmd =
                          PList [mri_vol2surf, PStr ''--src'', PStr roi_in,
                                 PStr ''--projfrac-max'', PStr ''-.5 1 .1'',
                                 PStr ''--out'', PStr roi_surf,
                                 PStr ''--regheader'', PStr subject,
                                 PStr ''--hemi'', PStr hemi]
                    in case run_command w mri_vol2surf_cmd st of
                         (Inl e, st1) \<Rightarrow> (Inl e, st1)
                       | (Inr _, st1) \<Rightarrow> (Inr roi_surf, st1)))
      else (Inr roi_in, st))"

text \<open>
  The last step builds \<open>mri_surf2vol_cmd\<close> and then calls \<open>run_command(mri_surf2vol)\<close>:
  the argument is the program found by \<open>find_program\<close>, not the list.
\<close>

definition dilate_roi ::
  "world \<Rightarrow> string \<Rightarrow> string \<Rightarrow> string \<Rightarrow> string \<Rightarrow> trace \<Rightarrow> (error + pyval) \<times> trace" where
  "dilate_roi w roi_in fs_dir hemi outpath_base st =
     (case last_py (split_py (CHR ''/'') fs_dir) of
        Inl e \<Rightarrow> (Inl e, st)
      | Inr subject \<Rightarrow>
          (case last_py (split_py (CHR ''.'') roi_in) of
             Inl e \<Rightarrow> (Inl e, st)
           | Inr roi_file_extension \<Rightarrow>
               (case dilate_roi_surf w roi_in roi_file_extension subject hemi st of
                  (Inl e, st1) \<Rightarrow> (Inl e, st1)
                | (Inr roi_surf, st1) \<Rightarrow>
                    (case find_program w ''mri_surf2vol'' of
                       Inl e \<Rightarrow> (Inl e, st1)
                     | Inr mri_surf2vol \<Rightarrow>
                         (let mri_surf2vol_cmd =
                                PList [mri_surf2vol, PStr ''--surfval'', PStr roi_surf,
                                       PStr ''--o'', PStr roi_in,
                                       PStr ''--subject'', PStr subject,
                                       PStr ''--fill-projfrac'', PStr ''-2 0 0.05'',
                                       PStr ''--hemi'', PStr hemi, PStr ''--template'',
                                       PStr (op_join (op_join fs_dir ''mri'') ''aseg.mgz''),
                                       PStr ''--identity'', PStr subject]
                          in case run_command w mri_surf2vol st1 of
                               (Inl e, st2) \<Rightarrow> (Inl e, st2)
                             | (Inr _, st2) \<Rightarrow> (Inr PNone, st2))))))"

subsection \<open>intersect_gmwmi\<close>

text \<open>
  The first element of \<open>mrcalc_cmd\<close> is \<open>mrcalc_path\<close>, a name bound nowhere (the
  program was bound to \<open>mrcalc\<close>): building the list raises NameError and
  \<open>run_command\<close> is never reached. None of the three parameters is read before that.
\<close>

definition intersect_gmwmi ::
  "world \<Rightarrow> string \<Rightarrow> string \<Rightarrow> string \<Rightarrow> trace \<Rightarrow> (error + pyval) \<times> trace" where
  "intersect_gmwmi w rois_in gmwmi outpath_base st =
     (case find_program w ''mrcalc'' of
        Inl e \<Rightarrow> (Inl e, st)
      | Inr mrcalc \<Rightarrow> (Inl (NameError ''mrcalc_path''), st))"

section \<open>Concrete worlds\<close>

text \<open>
  A world with the given PATH, whose executable files are \<open>files\<close>, whose directories
  are \<open>dirs\<close>, and where every program that is started exits with \<open>rc\<close>.
\<close>

definition example_world :: "string \<Rightarrow> string list \<Rightarrow> string list \<Rightarrow> int \<Rightarrow> world" where
  "example_world path files dirs rc =
     \<lparr>environ_PATH = Some path,
      fs_exists = (\<lambda>f. f \<in> set files \<or> f \<in> set dirs),
      fs_access_x = (\<lambda>f. f \<in> set files \<or> f \<in> set dirs),
      fs_isdir = (\<lambda>f. f \<in> set dirs),
      proc = (\<lambda>argv. Exited rc)\<rparr>"

section \<open>Facts about the library operations\<close>

lemma split_py_nonempty: "split_py c s \<noteq> []"
  by (induction s) (auto split: list.splits)

lemma last_n_suffix: "length t = k \<Longrightarrow> (last_n k s = t) = suffix t s"
  unfolding last_n_def
  by (metis append_take_drop_id same_append_eq suffix_drop suffix_take)


lemma fsencode_all_error:
  "fsencode_all xs = Inl e \<Longrightarrow> e = TypeError ''expected str, bytes or os.PathLike object''"
  by (induction xs rule: fsencode_all.induct) (auto split: sum.splits)

text \<open>The definitions unfolded to evaluate a call in a concrete world.\<close>

lemmas eval_defs = find_program_def example_world_def Let_def strip_py_def op_join_def
  is_exe_def run_command_def subprocess_run_def suffix_to_prefix

section \<open>find_program\<close>

text \<open>
  Whatever the world, \<open>find_program\<close> has three outcomes: PATH is unset, the first PATH
  entry holds the program, or the first PATH entry does not hold it.
\<close>

lemma find_program_loop_cases:
  "path_split \<noteq> [] \<Longrightarrow>
   find_program_loop w program path_split = Inr (PStr program) \<or>
   find_program_loop w program path_split = Inl (NameError ''function_name'')"
  by (cases path_split) (simp_all add: Let_def)

lemma find_program_cases:
  "find_program w program = Inl (KeyError ''PATH'') \<or>
   find_program w program = Inr (PStr program) \<or>
   find_program w program = Inl (NameError ''function_name'')"
  using find_program_loop_cases [OF split_py_nonempty]
  by (auto simp: find_program_def Let_def split_py_nonempty split: option.splits)

lemma find_program_Inr: "find_program w program = Inr v \<Longrightarrow> v = PStr program"
  using find_program_cases [of w program] by auto

lemma find_program_no_SystemExit: "find_program w program \<noteq> Inl (SystemExit m)"
  using find_program_cases [of w program] by auto

text \<open>
  Claim C1: a program that is absent from every PATH directory is reported by a "not
  found" error naming it, after the whole list was checked, and a program that is
  executable in some PATH directory is returned.

  The code does neither. With PATH \<open>/usr/bin:/opt/mrtrix3/bin\<close> and \<open>mrcalc\<close>
  executable in the second directory only, the loop leaves at the first directory; and
  what it raises there, and when \<open>mrcalc\<close> is in no directory at all, is the NameError
  of the unbound \<open>function_name\<close>, not a \<open>SystemExit\<close> naming \<open>mrcalc\<close>.
\<close>

theorem find_program_later_directory:
  "find_program
     (example_world ''/usr/bin:/opt/mrtrix3/bin'' [''/opt/mrtrix3/bin/mrcalc''] [] 0)
     ''mrcalc''
   = Inl (NameError ''function_name'') \<and>
   find_program (example_world ''/usr/bin:/opt/mrtrix3/bin'' [] [] 0) ''mrcalc''
   = Inl (NameError ''function_name'')"
  by (simp add: eval_defs)

text \<open>
  Claim C9: with an empty PATH variable \<open>find_program\<close> fails with the error that the
  search path is empty, before it looks for any program.

  The code tests \<open>len(path_split) == 0\<close>, but splitting the empty string gives the list
  holding one empty string, so the test is false and the loop runs with the empty
  directory name: the program is looked up in the current directory, and is returned
  when it is executable there.
\<close>

theorem find_program_empty_PATH:
  "find_program (example_world '''' [] [] 0) ''mrcalc'' = Inl (NameError ''function_name'') \<and>
   find_program (example_world '''' [''mrcalc''] [] 0) ''mrcalc'' = Inr (PStr ''mrcalc'')"
  by (simp add: eval_defs)

section \<open>run_command\<close>


text \<open>
  What a call of \<open>run_command\<close> does to the trace: either nothing was started and the
  call failed, or exactly one process was started, with the argument vector of the
  command, and the call returned None exactly when it exited with 0.
\<close>

lemma run_command_trace:
  "run_command w cmd st = (r, st') \<Longrightarrow>
   st' = st \<and> (\<forall>v. r \<noteq> Inr v) \<or>
   (\<exists>argv rc. popen_args cmd = Inr argv \<and> proc w argv = Exited rc \<and> st' = st @ [argv] \<and>
      (rc = 0 \<longleftrightarrow> r = Inr PNone) \<and> (\<forall>v. r = Inr v \<longrightarrow> v = PNone))"
  by (auto simp: run_command_def subprocess_run_def
           split: sum.splits proc_result.splits if_splits pyval.splits)



text \<open>
  Claim C10: \<open>run_command\<close> reads the program name from the first element of its list.
  With the empty list it fails with IndexError and the trace is unchanged, so no process
  was started; and whenever a call with a non-empty list ends in the \<open>SystemExit\<close> of
  \<open>run_command\<close>, the first element is a string and the message names exactly it.
\<close>

theorem run_command_first_element:
  "run_command w (PList []) st = (Inl (IndexError ''list index out of range''), st) \<and>
   (run_command w (PList (x # xs)) st = (Inl (SystemExit msg), st') \<longrightarrow>
      (\<exists>n. x = PStr n \<and>
           msg = ''Command '' @ n @
                 '' exited with errors. See message above for more information.''))"
  by (auto simp: run_command_def subprocess_run_def
           split: sum.splits proc_result.splits if_splits pyval.splits
           dest: fsencode_all_error)

theorem run_command_first_element_witness:
  "run_command (example_world ''/opt/mrtrix3/bin'' [] [] 1)
     (PList [PStr ''mrcalc'', PStr ''-version'']) []
   = (Inl (SystemExit
        ''Command mrcalc exited with errors. See message above for more information.''),
      [[''mrcalc'', ''-version'']]) \<and>
   (\<exists>n. PStr ''mrcalc'' = PStr n \<and>
      ''Command mrcalc exited with errors. See message above for more information.'' =
      ''Command '' @ n @ '' exited with errors. See message above for more information.'')"
  using run_command_first_element
          [of "example_world ''/opt/mrtrix3/bin'' [] [] 1" "[]" "PStr ''mrcalc''"
              "[PStr ''-version'']"
              "''Command mrcalc exited with errors. See message above for more information.''"
              "[[''mrcalc'', ''-version'']]"]
  by (simp add: run_command_def subprocess_run_def example_world_def)

section \<open>merge_rois\<close>

text \<open>
  On every input \<open>merge_rois\<close> ends in an error, and it starts at most one process, the
  multiplication.
\<close>

lemma merge_rois_never_merges:
  assumes "merge_rois w roi1 roi2 outpath_base st = (r, st')"
  shows "(\<forall>v. r \<noteq> Inr v) \<and>
         (st' = st \<or> st' = st @ [[''mrcalc'', roi2, ''2'', ''-mult'',
                                    removesuffix roi2 ''.nii.gz'' @ ''_labelled.nii.gz'']])"
proof (cases "find_program w ''mrcalc''")
  case (Inl e)
  with assms show ?thesis by (auto simp: merge_rois_def Let_def)
next
  case (Inr mrcalc)
  then have "mrcalc = PStr ''mrcalc''" by (rule find_program_Inr)
  with assms Inr show ?thesis
    by (auto simp: merge_rois_def Let_def split: sum.splits prod.splits
             dest!: run_command_trace)
qed

text \<open>
  Claim C5: \<open>merge_rois\<close> first runs the arithmetic tool to multiply \<open>roi2\<close> by 2 into
  the file named by replacing the suffix \<open>.nii.gz\<close> with \<open>_labelled.nii.gz\<close>, then
  runs it again to add \<open>roi1\<close> and the relabelled mask into a path derived from the
  output prefix.

  The code runs the multiplication as claimed and then stops: with \<open>mrcalc\<close> on PATH
  and every process exiting with 0, merging \<open>R1.nii.gz\<close> and \<open>R2.nii.gz\<close> with
  prefix \<open>out_\<close> starts one process and raises the NameError of \<open>out_file\<close>.
\<close>

theorem merge_rois_out_file:
  "merge_rois (example_world ''/opt/mrtrix3/bin'' [''/opt/mrtrix3/bin/mrcalc''] [] 0)
     ''R1.nii.gz'' ''R2.nii.gz'' ''out_'' []
   = (Inl (NameError ''out_file''),
      [[''mrcalc'', ''R2.nii.gz'', ''2'', ''-mult'', ''R2_labelled.nii.gz'']])"
  by (simp add: merge_rois_def removesuffix_def eval_defs)

section \<open>intersect_gmwmi\<close>

text \<open>On every input \<open>intersect_gmwmi\<close> ends in an error and starts no process.\<close>

lemma intersect_gmwmi_never_runs:
  "snd (intersect_gmwmi w rois_in gmwmi outpath_base st) = st \<and>
   (\<forall>v. fst (intersect_gmwmi w rois_in gmwmi outpath_base st) \<noteq> Inr v)"
  by (auto simp: intersect_gmwmi_def split: sum.splits)

text \<open>
  Claim C7: \<open>intersect_gmwmi\<close> runs the arithmetic tool to multiply its two inputs and
  writes the result to the prefix followed by \<open>gmwmi_roi_intersect.nii.gz\<close>.

  The code builds that argument list with the unbound name \<open>mrcalc_path\<close> in first
  place: with \<open>mrcalc\<close> on PATH the call raises NameError and no process is started.
\<close>

theorem intersect_gmwmi_mrcalc_path:
  "intersect_gmwmi (example_world ''/opt/mrtrix3/bin'' [''/opt/mrtrix3/bin/mrcalc''] [] 0)
     ''rois.nii.gz'' ''out_gmwmi.nii.gz'' ''out_'' []
   = (Inl (NameError ''mrcalc_path''), [])"
  by (simp add: intersect_gmwmi_def eval_defs)

section \<open>extract_tck_mrtrix\<close>

text \<open>
  Claim C3: for \<open>T.tck\<close>, \<open>R.nii.gz\<close>, prefix \<open>out_\<close>, search distance 2.0 and one
  ROI, the assignment tool is run with the textual list \<open>tck2connectome T.tck R.nii.gz
  out_connectome.txt -assignment_forward_search 2.0 -out_assignments out_assignments.txt
  -force\<close>, the number having been turned into text.

  The code puts the float into the list unchanged. With both tools on PATH,
  \<open>subprocess.run\<close> rejects the list with TypeError and no process is started.
\<close>

theorem extract_tck_mrtrix_float_search_dist:
  "extract_tck_mrtrix
     (example_world ''/opt/mrtrix3/bin''
        [''/opt/mrtrix3/bin/tck2connectome'', ''/opt/mrtrix3/bin/connectome2tck''] [] 0)
     ''T.tck'' ''R.nii.gz'' ''out_'' (PFloat 1 1) False []
   = (Inl (TypeError ''expected str, bytes or os.PathLike object''), [])"
  by (simp add: extract_tck_mrtrix_def eval_defs)

text \<open>
  Every call of \<open>extract_tck_mrtrix\<close> starts at most two processes, and a second one
  is always the filter tool with the node set chosen by \<open>two_rois\<close>.
\<close>

lemma extract_tck_mrtrix_trace:
  assumes "extract_tck_mrtrix w tck_file rois_in outpath_base search_dist two_rois st = (r, st')"
  shows "\<exists>cs. st' = st @ cs \<and> length cs \<le> 2 \<and>
           (length cs = 2 \<longrightarrow>
              cs ! 1 = [''connectome2tck'', tck_file, outpath_base @ ''assignments.txt'',
                        outpath_base @ ''extracted'', ''-nodes'',
                        (if two_rois then ''1,2'' else ''0,1''),
                        ''-exclusive'', ''-files'', ''single''])"
proof (cases "find_program w ''tck2connectome''")
  case (Inl e)
  with assms show ?thesis by (auto simp: extract_tck_mrtrix_def)
next
  case t1: (Inr t1)
  then have t1': "t1 = PStr ''tck2connectome''" by (rule find_program_Inr)
  obtain r1 st1 where rc1: "run_command w (PList [t1, PStr tck_file, PStr rois_in,
                        PStr (outpath_base @ ''connectome.txt''),
                        PStr ''-assignment_forward_search'', search_dist,
                        PStr ''-out_assignments'', PStr (outpath_base @ ''assignments.txt''),
                        PStr ''-force'']) st = (r1, st1)" by fastforce
  from run_command_trace [OF rc1] have st1: "st1 = st \<and> (\<forall>v. r1 \<noteq> Inr v) \<or> (\<exists>c. st1 = st @ [c])"
    by auto
  show ?thesis
  proof (cases r1)
    case (Inl e)
    with assms t1 rc1 st1 show ?thesis
      by (auto simp: extract_tck_mrtrix_def Let_def)
  next
    case r1: (Inr v)
    with st1 obtain c1 where c1: "st1 = st @ [c1]" by auto
    show ?thesis
    proof (cases "find_program w ''connectome2tck''")
      case (Inl e)
      with assms t1 rc1 r1 c1 show ?thesis
        by (auto simp: extract_tck_mrtrix_def Let_def)
    next
      case t2: (Inr t2)
      then have t2': "t2 = PStr ''connectome2tck''" by (rule find_program_Inr)
      obtain r2 st2 where rc2: "run_command w (PList [t2, PStr tck_file,
                                     PStr (outpath_base @ ''assignments.txt''),
                                     PStr (outpath_base @ ''extracted''),
                                     PStr ''-nodes'', PStr (if two_rois then ''1,2'' else ''0,1''), PStr ''-exclusive'',
                                     PStr ''-files'', PStr ''single'']) st1 = (r2, st2)" by fastforce
      from run_command_trace [OF rc2] t2'
      have st2: "st2 = st1 \<or> st2 = st1 @ [[''connectome2tck'', tck_file, outpath_base @ ''assignments.txt'',
                        outpath_base @ ''extracted'', ''-nodes'',
                        (if two_rois then ''1,2'' else ''0,1''),
                        ''-exclusive'', ''-files'', ''single'']]"
        by auto
      have "st' = st2"
        using assms t1 rc1 r1 t2 rc2
        by (auto simp: extract_tck_mrtrix_def Let_def split: sum.splits)
      with st2 c1 show ?thesis by auto
    qed
  qed
qed

text \<open>
  When both tools are found, the search distance is text and the assignment tool exits
  with 0, both tools are started, in this order and with these argument vectors.
\<close>

lemma extract_tck_mrtrix_runs_both:
  assumes "find_program w ''tck2connectome'' = Inr t1"
      and "find_program w ''connectome2tck'' = Inr t2"
      and "proc w [''tck2connectome'', tck_file, rois_in, outpath_base @ ''connectome.txt'',
                   ''-assignment_forward_search'', d, ''-out_assignments'',
                   outpath_base @ ''assignments.txt'', ''-force''] = Exited 0"
      and "proc w [''connectome2tck'', tck_file, outpath_base @ ''assignments.txt'',
                   outpath_base @ ''extracted'', ''-nodes'',
                   (if two_rois then ''1,2'' else ''0,1''),
                   ''-exclusive'', ''-files'', ''single''] = Exited rc"
  shows "snd (extract_tck_mrtrix w tck_file rois_in outpath_base (PStr d) two_rois st) =
           st @ [[''tck2connectome'', tck_file, rois_in, outpath_base @ ''connectome.txt'',
                  ''-assignment_forward_search'', d, ''-out_assignments'',
                  outpath_base @ ''assignments.txt'', ''-force''],
                 [''connectome2tck'', tck_file, outpath_base @ ''assignments.txt'',
                  outpath_base @ ''extracted'', ''-nodes'',
                  (if two_rois then ''1,2'' else ''0,1''),
                  ''-exclusive'', ''-files'', ''single'']]"
proof -
  have t1: "t1 = PStr ''tck2connectome''" using assms(1) by (rule find_program_Inr)
  have t2: "t2 = PStr ''connectome2tck''" using assms(2) by (rule find_program_Inr)
  show ?thesis
    using assms t1 t2
    by (cases two_rois; cases "rc = 0")
       (simp_all add: extract_tck_mrtrix_def run_command_def subprocess_run_def Let_def)
qed

text \<open>
  With the search distance already given as the text \<open>2.0\<close>, the one-ROI scenario
  starts both tools with the argument vectors of the specification.
\<close>

lemma extract_tck_mrtrix_textual_scenario:
  "snd (extract_tck_mrtrix
     (example_world ''/opt/mrtrix3/bin''
        [''/opt/mrtrix3/bin/tck2connectome'', ''/opt/mrtrix3/bin/connectome2tck''] [] 0)
     ''T.tck'' ''R.nii.gz'' ''out_'' (PStr ''2.0'') False [])
   = [[''tck2connectome'', ''T.tck'', ''R.nii.gz'', ''out_connectome.txt'',
       ''-assignment_forward_search'', ''2.0'', ''-out_assignments'',
       ''out_assignments.txt'', ''-force''],
      [''connectome2tck'', ''T.tck'', ''out_assignments.txt'', ''out_extracted'',
       ''-nodes'', ''0,1'', ''-exclusive'', ''-files'', ''single'']]"
  by (simp add: extract_tck_mrtrix_def eval_defs)

text \<open>
  With a float as search distance, whatever its value and whatever the world,
  \<open>extract_tck_mrtrix\<close> starts no process and does not return.
\<close>

lemma extract_tck_mrtrix_float_never_runs:
  "snd (extract_tck_mrtrix w tck_file rois_in outpath_base (PFloat m e) two_rois st) = st \<and>
   (\<forall>v. fst (extract_tck_mrtrix w tck_file rois_in outpath_base (PFloat m e) two_rois st) \<noteq> Inr v)"
proof (cases "find_program w ''tck2connectome''")
  case (Inl err)
  then show ?thesis by (simp add: extract_tck_mrtrix_def)
next
  case (Inr t1)
  then have "t1 = PStr ''tck2connectome''" by (rule find_program_Inr)
  with Inr show ?thesis
    by (simp add: extract_tck_mrtrix_def run_command_def subprocess_run_def)
qed

text \<open>
  Claim C4: in \<open>extract_tck_mrtrix\<close>, \<open>two_rois = True\<close> gives the node set
  \<open>1,2\<close> and \<open>two_rois = False\<close> gives \<open>0,1\<close>; and in the one-ROI scenario
  (\<open>T.tck\<close>, \<open>R.nii.gz\<close>, prefix \<open>out_\<close>, search distance 2.0) the filter tool is
  run with exactly \<open>connectome2tck T.tck out_assignments.txt out_extracted -nodes 0,1
  -exclusive -files single\<close>.

  The code selects the node set as claimed, but only after the assignment stage has
  returned, and in the scenario it never does: the float search distance makes
  \<open>subprocess.run\<close> reject the assignment command. With both tools on PATH and every
  process exiting with 0, the trace stays empty for either value of \<open>two_rois\<close>, so
  the filter command of the claim is not among the processes started.
\<close>

theorem extract_tck_mrtrix_filter_not_reached:
  "snd (extract_tck_mrtrix
          (example_world ''/opt/mrtrix3/bin''
             [''/opt/mrtrix3/bin/tck2connectome'', ''/opt/mrtrix3/bin/connectome2tck''] [] 0)
          ''T.tck'' ''R.nii.gz'' ''out_'' (PFloat 1 1) False []) = [] \<and>
   [''connectome2tck'', ''T.tck'', ''out_assignments.txt'', ''out_extracted'',
    ''-nodes'', ''0,1'', ''-exclusive'', ''-files'', ''single'']
     \<notin> set (snd (extract_tck_mrtrix
          (example_world ''/opt/mrtrix3/bin''
             [''/opt/mrtrix3/bin/tck2connectome'', ''/opt/mrtrix3/bin/connectome2tck''] [] 0)
          ''T.tck'' ''R.nii.gz'' ''out_'' (PFloat 1 1) False [])) \<and>
   snd (extract_tck_mrtrix
          (example_world ''/opt/mrtrix3/bin''
             [''/opt/mrtrix3/bin/tck2connectome'', ''/opt/mrtrix3/bin/connectome2tck''] [] 0)
          ''T.tck'' ''R.nii.gz'' ''out_'' (PFloat 1 1) True []) = []"
  by (simp add: extract_tck_mrtrix_def eval_defs)

section \<open>anat_to_gmwmi\<close>

text \<open>The three slices of the \<open>elif\<close> are suffix tests.\<close>

lemma fivett_algo_suffix:
  "fivett_algo w anat =
     (if fs_isdir w (op_join anat ''surf'') then Inr ''hsvs''
      else if suffix ''.nii.gz'' anat \<or> suffix ''.nii'' anat \<or> suffix ''.mif'' anat
      then Inr ''fsl''
      else Inl (Exception ''Neither T1 or FreeSurfer input detected; Unable to create GMWMI''))"
  by (simp add: fivett_algo_def last_n_suffix)

text \<open>
  The first process \<open>anat_to_gmwmi\<close> starts, if it starts any, is \<open>5ttgen\<close> with the
  selected algorithm as its first argument.
\<close>

lemma anat_to_gmwmi_first_command:
  assumes algo: "fivett_algo w anat = Inr algo"
      and run: "snd (anat_to_gmwmi w anat outpath_base st) = st @ c # cs"
  shows "c = [''5ttgen'', algo, anat, outpath_base @ ''5tt.nii.gz'', ''-nocrop'']"
proof (cases "find_program w ''5ttgen''")
  case (Inl e)
  with algo run show ?thesis by (simp add: anat_to_gmwmi_def)
next
  case t1: (Inr t1)
  then have t1': "t1 = PStr ''5ttgen''" by (rule find_program_Inr)
  obtain r1 st1 where rc1:
    "run_command w (PList [t1, PStr algo, PStr anat, PStr (outpath_base @ ''5tt.nii.gz''),
                           PStr ''-nocrop'']) st = (r1, st1)"
    by fastforce
  from run_command_trace [OF rc1] t1'
  have st1: "st1 = st \<and> (\<forall>v. r1 \<noteq> Inr v) \<or>
             st1 = st @ [[''5ttgen'', algo, anat, outpath_base @ ''5tt.nii.gz'', ''-nocrop'']]"
    by auto
  show ?thesis
  proof (cases r1)
    case (Inl e)
    with algo run t1 rc1 st1 show ?thesis
      by (auto simp: anat_to_gmwmi_def Let_def)
  next
    case r1: (Inr v)
    with st1 have st1': "st1 = st @ [[''5ttgen'', algo, anat, outpath_base @ ''5tt.nii.gz'', ''-nocrop'']]"
      by auto
    show ?thesis
    proof (cases "find_program w ''5tt2gmwmi''")
      case (Inl e)
      with algo run t1 rc1 r1 st1' show ?thesis
        by (auto simp: anat_to_gmwmi_def Let_def)
    next
      case t2: (Inr t2)
      obtain r2 st2 where rc2:
        "run_command w (PList [t2, PStr (outpath_base @ ''5tt.nii.gz''),
                               PStr (outpath_base @ ''gmwmi.nii.gz'')]) st1 = (r2, st2)"
        by fastforce
      from run_command_trace [OF rc2]
      have st2: "st2 = st1 \<or> (\<exists>x. st2 = st1 @ [x])" by auto
      have "snd (anat_to_gmwmi w anat outpath_base st) = st2"
        using algo t1 rc1 r1 t2 rc2
        by (auto simp: anat_to_gmwmi_def Let_def split: sum.splits)
      with run st2 st1' show ?thesis by auto
    qed
  qed
qed

text \<open>
  Claim C6, as amended: \<open>anat_to_gmwmi\<close> selects \<open>hsvs\<close> for every input that has a
  \<open>surf\<close> subdirectory; it selects \<open>fsl\<close> for every input path ending in
  \<open>.nii\<close>, \<open>.nii.gz\<close> or \<open>.mif\<close> that has no \<open>surf\<close> subdirectory; for any
  other input it raises the descriptive error with the trace unchanged, so before any
  external tool is started. The selected algorithm is the one handed to \<open>5ttgen\<close>:
  the first process started, if any, has it as first argument.
\<close>

theorem anat_to_gmwmi_classification:
  "(fs_isdir w (op_join anat ''surf'') \<longrightarrow> fivett_algo w anat = Inr ''hsvs'') \<and>
   (\<not> fs_isdir w (op_join anat ''surf'') \<and>
    (suffix ''.nii'' anat \<or> suffix ''.nii.gz'' anat \<or> suffix ''.mif'' anat) \<longrightarrow>
      fivett_algo w anat = Inr ''fsl'') \<and>
   (\<not> fs_isdir w (op_join anat ''surf'') \<and>
    \<not> suffix ''.nii'' anat \<and> \<not> suffix ''.nii.gz'' anat \<and> \<not> suffix ''.mif'' anat \<longrightarrow>
      anat_to_gmwmi w anat outpath_base st =
        (Inl (Exception ''Neither T1 or FreeSurfer input detected; Unable to create GMWMI''), st)) \<and>
   (fivett_algo w anat = Inr algo \<and>
    snd (anat_to_gmwmi w anat outpath_base st) = st @ c # cs \<longrightarrow>
      c = [''5ttgen'', algo, anat, outpath_base @ ''5tt.nii.gz'', ''-nocrop''])"
proof (intro conjI impI)
  assume "fivett_algo w anat = Inr algo \<and>
          snd (anat_to_gmwmi w anat outpath_base st) = st @ c # cs"
  then show "c = [''5ttgen'', algo, anat, outpath_base @ ''5tt.nii.gz'', ''-nocrop'']"
    using anat_to_gmwmi_first_command by blast
qed (auto simp: fivett_algo_suffix anat_to_gmwmi_def)

theorem anat_to_gmwmi_classification_witness:
  "fivett_algo (example_world ''/opt/mrtrix3/bin''
        [''/opt/mrtrix3/bin/5ttgen'', ''/opt/mrtrix3/bin/5tt2gmwmi''] [''/subjects/s1/surf''] 0)
     ''/subjects/s1'' = Inr ''hsvs'' \<and>
   fivett_algo (example_world ''/opt/mrtrix3/bin''
        [''/opt/mrtrix3/bin/5ttgen'', ''/opt/mrtrix3/bin/5tt2gmwmi''] [''/subjects/s1/surf''] 0)
     ''T1.nii.gz'' = Inr ''fsl'' \<and>
   anat_to_gmwmi (example_world ''/opt/mrtrix3/bin''
        [''/opt/mrtrix3/bin/5ttgen'', ''/opt/mrtrix3/bin/5tt2gmwmi''] [''/subjects/s1/surf''] 0)
     ''T1.txt'' ''out_'' [] =
     (Inl (Exception ''Neither T1 or FreeSurfer input detected; Unable to create GMWMI''), []) \<and>
   snd (anat_to_gmwmi (example_world ''/opt/mrtrix3/bin''
        [''/opt/mrtrix3/bin/5ttgen'', ''/opt/mrtrix3/bin/5tt2gmwmi''] [''/subjects/s1/surf''] 0)
     ''/subjects/s1'' ''out_'' []) =
     [] @ [''5ttgen'', ''hsvs'', ''/subjects/s1'', ''out_5tt.nii.gz'', ''-nocrop''] #
          [[''5tt2gmwmi'', ''out_5tt.nii.gz'', ''out_gmwmi.nii.gz'']]"
  using anat_to_gmwmi_classification
          [of "example_world ''/opt/mrtrix3/bin''
                 [''/opt/mrtrix3/bin/5ttgen'', ''/opt/mrtrix3/bin/5tt2gmwmi'']
                 [''/subjects/s1/surf''] 0"
              "''/subjects/s1''" "''out_''" "[]" "''hsvs''"
              "[''5ttgen'', ''hsvs'', ''/subjects/s1'', ''out_5tt.nii.gz'', ''-nocrop'']"
              "[[''5tt2gmwmi'', ''out_5tt.nii.gz'', ''out_gmwmi.nii.gz'']]"]
        anat_to_gmwmi_classification
          [of "example_world ''/opt/mrtrix3/bin''
                 [''/opt/mrtrix3/bin/5ttgen'', ''/opt/mrtrix3/bin/5tt2gmwmi'']
                 [''/subjects/s1/surf''] 0"
              "''T1.nii.gz''" "''out_''" "[]"]
        anat_to_gmwmi_classification
          [of "example_world ''/opt/mrtrix3/bin''
                 [''/opt/mrtrix3/bin/5ttgen'', ''/opt/mrtrix3/bin/5tt2gmwmi'']
                 [''/subjects/s1/surf''] 0"
              "''T1.txt''" "''out_''" "[]"]
  by (simp add: anat_to_gmwmi_def fivett_algo_def last_n_def eval_defs)

text \<open>
  The claim as stated, "\<open>fsl\<close> for every input path ending in \<open>.nii\<close>", fails where
  the two tests overlap: the directory test comes first, so a FreeSurfer directory named
  \<open>sub01.nii\<close> is segmented with \<open>hsvs\<close>.
\<close>

theorem anat_to_gmwmi_directory_first:
  "suffix ''.nii'' ''sub01.nii'' \<and>
   fivett_algo (example_world ''/opt/mrtrix3/bin''
        [''/opt/mrtrix3/bin/5ttgen'', ''/opt/mrtrix3/bin/5tt2gmwmi''] [''sub01.nii/surf''] 0)
     ''sub01.nii'' \<noteq> Inr ''fsl'' \<and>
   anat_to_gmwmi (example_world ''/opt/mrtrix3/bin''
        [''/opt/mrtrix3/bin/5ttgen'', ''/opt/mrtrix3/bin/5tt2gmwmi''] [''sub01.nii/surf''] 0)
     ''sub01.nii'' ''out_'' []
   = (Inr PNone,
      [[''5ttgen'', ''hsvs'', ''sub01.nii'', ''out_5tt.nii.gz'', ''-nocrop''],
       [''5tt2gmwmi'', ''out_5tt.nii.gz'', ''out_gmwmi.nii.gz'']])"
  by (simp add: anat_to_gmwmi_def fivett_algo_def last_n_def eval_defs)

section \<open>dilate_roi\<close>

text \<open>
  Claim C8: the last step of \<open>dilate_roi\<close> runs the surface-to-volume tool with the
  surface-valued ROI as input and the path of the input ROI as output, for a volumetric
  and for a surface ROI.

  The code builds that argument list and then runs the program alone. For the surface
  ROI \<open>roi.label\<close> and for the volumetric ROI \<open>roi.nii.gz\<close>, with both FreeSurfer
  tools on PATH and every process exiting with 0, the last process started has the
  argument vector \<open>mri_surf2vol\<close> and nothing else.
\<close>

theorem dilate_roi_runs_bare_program:
  "dilate_roi
     (example_world ''/opt/freesurfer/bin''
        [''/opt/freesurfer/bin/mri_vol2surf'', ''/opt/freesurfer/bin/mri_surf2vol''] [] 0)
     ''roi.label'' ''/subjects/s1'' ''lh'' ''out_'' []
   = (Inr PNone, [[''mri_surf2vol'']]) \<and>
   dilate_roi
     (example_world ''/opt/freesurfer/bin''
        [''/opt/freesurfer/bin/mri_vol2surf'', ''/opt/freesurfer/bin/mri_surf2vol''] [] 0)
     ''roi.nii.gz'' ''/subjects/s1'' ''lh'' ''out_'' []
   = (Inr PNone,
      [[''mri_vol2surf'', ''--src'', ''roi.nii.gz'', ''--projfrac-max'', ''-.5 1 .1'',
        ''--out'', ''roi.nii..mgz'', ''--regheader'', ''s1'', ''--hemi'', ''lh''],
       [''mri_surf2vol'']])"
  by (simp add: dilate_roi_def dilate_roi_surf_def last_py_def replace_py_def eval_defs)

end
